theory Spec2Isabelle
  imports Complex_Main "HOL-Library.Char_ord" "HOL-Library.List_Lexorder"
begin

section \<open>Data model of \<^verbatim>\<open>src/routes/voteOnSponsorTime.ts\<close>\<close>

text \<open>
  The route handler reads and writes two relational stores, \<^verbatim>\<open>db\<close> and
  \<^verbatim>\<open>privateDB\<close>. A table is a list of rows in table order:
  \<^verbatim>\<open>prepare('get', ...)\<close> returns the first row that matches (\<open>find\<close>),
  an \<^verbatim>\<open>UPDATE\<close> rewrites every row that matches (\<open>map\<close>) and an
  \<^verbatim>\<open>INSERT\<close> appends a row. Only the columns the handler reads or writes
  are kept (\<^verbatim>\<open>hashedVideoID\<close>, \<^verbatim>\<open>service\<close> and \<^verbatim>\<open>views\<close> only
  feed the cache invalidation and the webhooks, which are outside the model).
  Numbers are JavaScript numbers holding integers; they are modelled as \<open>int\<close>.
\<close>

text \<open>The result of \<^verbatim>\<open>parseInt(req.query.type)\<close>: an integer or NaN.\<close>

datatype jsnum = Num int | NaN

text \<open>\<^verbatim>\<open>const voteTypes = { normal: 0, incorrect: 1 }\<close>\<close>

datatype voteTypes = normal | incorrect

text \<open>Table \<^verbatim>\<open>"sponsorTimes"\<close> of \<^verbatim>\<open>db\<close>.\<close>

record sponsorTime =
  st_UUID :: string
  st_userID :: string
  st_videoID :: string
  st_category :: string
  st_votes :: int
  st_incorrectVotes :: int
  st_locked :: int
  st_timeSubmitted :: int

text \<open>Table \<^verbatim>\<open>"categoryVotes"\<close> of \<^verbatim>\<open>db\<close>: the tally of a category on a segment.\<close>

record categoryVoteRow =
  cv_UUID :: string
  cv_category :: string
  cv_votes :: int

text \<open>Table \<^verbatim>\<open>"lockCategories"\<close> of \<^verbatim>\<open>db\<close>.\<close>

record lockCategory =
  lc_videoID :: string
  lc_category :: string

text \<open>Table \<^verbatim>\<open>warnings\<close> of \<^verbatim>\<open>db\<close>.\<close>

record warning =
  w_userID :: string
  w_issueTime :: int
  w_enabled :: int

text \<open>Table \<^verbatim>\<open>"votes"\<close> of \<^verbatim>\<open>privateDB\<close>: the vote ledger.\<close>

record voteRow =
  v_UUID :: string
  v_userID :: string
  v_hashedIP :: string
  v_type :: int

text \<open>Table \<^verbatim>\<open>"categoryVotes"\<close> of \<^verbatim>\<open>privateDB\<close>.\<close>

record privateCategoryVote =
  pcv_UUID :: string
  pcv_userID :: string
  pcv_hashedIP :: string
  pcv_category :: string
  pcv_timeSubmitted :: int

text \<open>
  Both stores in one record; the tables of \<^verbatim>\<open>privateDB\<close> carry the prefix
  \<open>private_\<close>.
\<close>

record database =
  sponsorTimes :: "sponsorTime list"
  vipUsers :: "string list"
  categoryVotes :: "categoryVoteRow list"
  lockCategories :: "lockCategory list"
  warnings :: "warning list"
  private_votes :: "voteRow list"
  private_categoryVotes :: "privateCategoryVote list"
  private_shadowBannedUsers :: "string list"

text \<open>
  What the handler takes from its surroundings: the fields of \<^verbatim>\<open>config\<close> it
  reads, the clock (\<^verbatim>\<open>Date.now()\<close>) and two helpers whose files are not part of
  the sources, taken as parameters: \<^verbatim>\<open>getHash\<close> and the test
  \<^verbatim>\<open>getCategoryActionType(category) === CategoryActionType.Skippable\<close>.
\<close>

record env =
  categoryList :: "string list"
  hoursAfterWarningExpires :: int
  maxNumberOfActiveWarnings :: int
  globalSalt :: string
  getHash :: "string \<Rightarrow> string"
  skippable :: "string \<Rightarrow> bool"
  now :: int

text \<open>
  The query parameters, \<^verbatim>\<open>type\<close> already through \<^verbatim>\<open>parseInt\<close>, and the
  address \<^verbatim>\<open>getIP(req)\<close>. \<open>None\<close> is \<^verbatim>\<open>undefined\<close>.
\<close>

record request =
  req_UUID :: "string option"
  req_userID :: "string option"
  req_type :: "jsnum option"
  req_category :: "string option"
  req_ip :: string

text \<open>\<^verbatim>\<open>interface FinalResponse\<close>; \<open>None\<close> is the message \<^verbatim>\<open>null\<close>.\<close>

record FinalResponse =
  finalStatus :: int
  finalMessage :: "string option"

text \<open>
  What the handler answers: \<^verbatim>\<open>res.sendStatus(n)\<close>,
  \<^verbatim>\<open>res.status(n).send(body)\<close> (\<open>None\<close> when the body is absent) and
  \<^verbatim>\<open>res.status(n).json(...)\<close>.
\<close>

datatype response = SendStatus int | Send int "string option" | Json int string

definition lockedMessage :: string where
  "lockedMessage = ''Vote rejected: A moderator has decided that this segment is correct''"

definition hiddenUpvoteMessage :: string where
  "hiddenUpvoteMessage = ''Not allowed to upvote segment with too many downvotes unless you are VIP.''"

definition warningMessage :: string where
  "warningMessage = ''Vote rejected due to a warning from a moderator. This means that we noticed you were making some common mistakes that are not malicious, and we just want to clarify the rules. Could you please send a message in Discord or Matrix so we can further help you?''"

definition internalErrorMessage :: string where
  "internalErrorMessage = ''Internal error creating segment vote''"

section \<open>Queries\<close>

text \<open>\<^verbatim>\<open>SELECT ... FROM "sponsorTimes" WHERE "UUID" = ?\<close> through \<^verbatim>\<open>get\<close>.\<close>

definition getSegment :: "database \<Rightarrow> string \<Rightarrow> sponsorTime option" where
  "getSegment db u = find (\<lambda>r. st_UUID r = u) (sponsorTimes db)"

text \<open>
  Modelled from the spec: \<^verbatim>\<open>utils/isUserVIP\<close> is not among the sources; the
  spec gives it as membership of the user in the privileged-user registry, the
  same test the handler itself runs on table \<^verbatim>\<open>"vipUsers"\<close> (line 269).
\<close>

definition isUserVIP :: "database \<Rightarrow> string \<Rightarrow> bool" where
  "isUserVIP db uid = (uid \<in> set (vipUsers db))"

text \<open>
  \<^verbatim>\<open>select votes from "categoryVotes" where "UUID" = ? and category = ?\<close>
\<close>

definition getCategoryVotes :: "database \<Rightarrow> string \<Rightarrow> string \<Rightarrow> categoryVoteRow option" where
  "getCategoryVotes db u c = find (\<lambda>r. cv_UUID r = u \<and> cv_category r = c) (categoryVotes db)"

text \<open>
  \<^verbatim>\<open>select count(*) as votes, category from "categoryVotes" where "UUID" = ? and
  "userID" = ? group by category\<close> through \<^verbatim>\<open>get\<close>: the first group. The
  query has no \<^verbatim>\<open>ORDER BY\<close>; the groups come as SQLite's \<^verbatim>\<open>GROUP BY\<close>
  produces them, in ascending order of the category (strings compared byte by
  byte, a proper prefix first, which is the order of \<open>string\<close> here). The first
  group is therefore that of the least category among the voter's rows on the
  segment, whatever the order of the rows in the table.
\<close>

definition firstCategory :: "privateCategoryVote list \<Rightarrow> string \<Rightarrow> string" where
  "firstCategory rs c = fold (\<lambda>q m. if pcv_category q < m then pcv_category q else m) rs c"

definition usersLastVoteInfo :: "database \<Rightarrow> string \<Rightarrow> string \<Rightarrow> (int \<times> string) option" where
  "usersLastVoteInfo db u uid =
     (case filter (\<lambda>r. pcv_UUID r = u \<and> pcv_userID r = uid) (private_categoryVotes db) of
        [] \<Rightarrow> None
      | r # rs \<Rightarrow>
          Some (int (length (filter (\<lambda>q. pcv_category q = firstCategory rs (pcv_category r))
                               (r # rs))),
                firstCategory rs (pcv_category r)))"

text \<open>\<^verbatim>\<open>Math.ceil(v / 2)\<close> on an integer \<open>v\<close>.\<close>

definition ceil_half :: "int \<Rightarrow> int" where
  "ceil_half v = - ((- v) div 2)"

section \<open>\<^verbatim>\<open>categoryVote\<close> (lines 148 to 234)\<close>

text \<open>Lines 185 to 191: add the vote to the tally of the voted category.\<close>

definition addVote :: "database \<Rightarrow> string \<Rightarrow> string \<Rightarrow> int \<Rightarrow> database" where
  "addVote db u c voteAmount =
     (if list_ex (\<lambda>r. cv_UUID r = u \<and> cv_category r = c) (categoryVotes db)
      then db\<lparr>categoryVotes :=
             map (\<lambda>r. if cv_UUID r = u \<and> cv_category r = c
                       then r\<lparr>cv_votes := cv_votes r + voteAmount\<rparr> else r)
                 (categoryVotes db)\<rparr>
      else db\<lparr>categoryVotes :=
             categoryVotes db @ [\<lparr>cv_UUID = u, cv_category = c, cv_votes = voteAmount\<rparr>]\<rparr>)"

text \<open>
  Lines 194 to 201: when the voter has an earlier category vote, take the weight
  back from that category and repoint the voter's rows; otherwise insert the
  voter's row.
\<close>

definition recordVote ::
  "database \<Rightarrow> (int \<times> string) option \<Rightarrow> string \<Rightarrow> string \<Rightarrow> string \<Rightarrow> string \<Rightarrow> int \<Rightarrow> int \<Rightarrow> database" where
  "recordVote db lastVote u userID c hashedIP timeSubmitted voteAmount =
     (case lastVote of
        Some (n, d) \<Rightarrow>
          if n > 0
          then db\<lparr>categoryVotes :=
                   map (\<lambda>r. if cv_UUID r = u \<and> cv_category r = d
                             then r\<lparr>cv_votes := cv_votes r - voteAmount\<rparr> else r)
                       (categoryVotes db),
                 private_categoryVotes :=
                   map (\<lambda>r. if pcv_userID r = userID \<and> pcv_UUID r = u
                             then r\<lparr>pcv_category := c, pcv_timeSubmitted := timeSubmitted,
                                    pcv_hashedIP := hashedIP\<rparr>
                             else r)
                       (private_categoryVotes db)\<rparr>
          else db\<lparr>private_categoryVotes := private_categoryVotes db @
                 [\<lparr>pcv_UUID = u, pcv_userID = userID, pcv_hashedIP = hashedIP,
                   pcv_category = c, pcv_timeSubmitted = timeSubmitted\<rparr>]\<rparr>
      | None \<Rightarrow>
          db\<lparr>private_categoryVotes := private_categoryVotes db @
                 [\<lparr>pcv_UUID = u, pcv_userID = userID, pcv_hashedIP = hashedIP,
                   pcv_category = c, pcv_timeSubmitted = timeSubmitted\<rparr>]\<rparr>)"

text \<open>Lines 185 to 201 together: the state on which line 204 reads the incumbent's tally.\<close>

definition tallyVote ::
  "database \<Rightarrow> string \<Rightarrow> string \<Rightarrow> bool \<Rightarrow> string \<Rightarrow> string \<Rightarrow> int \<Rightarrow> database" where
  "tallyVote db u userID isVIP c hashedIP timeSubmitted =
     (let voteAmount = (if isVIP then 500 else 1)
      in recordVote (addVote db u c voteAmount) (usersLastVoteInfo db u userID)
           u userID c hashedIP timeSubmitted voteAmount)"

text \<open>Line 208.\<close>

definition startingVotes :: "database \<Rightarrow> sponsorTime option \<Rightarrow> int" where
  "startingVotes db submissionInfo =
     (case submissionInfo of
        None \<Rightarrow> 1
      | Some s \<Rightarrow> if isUserVIP db (st_userID s) then 10000 else 1)"

text \<open>Line 212.\<close>

definition currentCategoryCount ::
  "database \<Rightarrow> categoryVoteRow option \<Rightarrow> sponsorTime option \<Rightarrow> int" where
  "currentCategoryCount db currentCategoryInfo submissionInfo =
     (case currentCategoryInfo of
        None \<Rightarrow> startingVotes db submissionInfo
      | Some r \<Rightarrow> cv_votes r)"

text \<open>Lines 215 to 219: the submission itself as a vote for the incumbent category.\<close>

definition seedBaseline ::
  "database \<Rightarrow> string \<Rightarrow> string \<Rightarrow> categoryVoteRow option \<Rightarrow> sponsorTime option \<Rightarrow> database" where
  "seedBaseline db u incumbent currentCategoryInfo submissionInfo =
     (case (currentCategoryInfo, submissionInfo) of
        (None, Some s) \<Rightarrow>
          db\<lparr>categoryVotes := categoryVotes db @
                [\<lparr>cv_UUID = u, cv_category = incumbent,
                  cv_votes = currentCategoryCount db currentCategoryInfo submissionInfo\<rparr>],
             private_categoryVotes := private_categoryVotes db @
                [\<lparr>pcv_UUID = u, pcv_userID = st_userID s, pcv_hashedIP = ''unknown'',
                  pcv_category = incumbent, pcv_timeSubmitted = st_timeSubmitted s\<rparr>]\<rparr>
      | _ \<Rightarrow> db)"

text \<open>
  Line 225. With \<^verbatim>\<open>submissionInfo\<close> undefined the threshold is NaN and the
  comparison is false.
\<close>

definition readyToChange ::
  "int \<Rightarrow> int \<Rightarrow> sponsorTime option \<Rightarrow> bool \<Rightarrow> bool \<Rightarrow> bool" where
  "readyToChange nextCategoryCount currentCount submissionInfo isVIP isOwnSubmission =
     ((case submissionInfo of
         None \<Rightarrow> False
       | Some s \<Rightarrow> nextCategoryCount - currentCount \<ge> max (ceil_half (st_votes s)) 2)
      \<or> isVIP \<or> isOwnSubmission)"

text \<open>Line 227.\<close>

definition replaceCategory :: "database \<Rightarrow> string \<Rightarrow> string \<Rightarrow> database" where
  "replaceCategory db u c =
     db\<lparr>sponsorTimes :=
          map (\<lambda>r. if st_UUID r = u then r\<lparr>st_category := c\<rparr> else r) (sponsorTimes db)\<rparr>"

text \<open>
  The whole function. \<^verbatim>\<open>ableToVote\<close> (line 181) ends in \<^verbatim>\<open>|| true\<close>, so the
  branch of line 183 is always taken, whatever \<^verbatim>\<open>finalResponse\<close> holds.
\<close>

definition categoryVote ::
  "env \<Rightarrow> database \<Rightarrow> string \<Rightarrow> string \<Rightarrow> bool \<Rightarrow> bool \<Rightarrow> string \<Rightarrow> string \<Rightarrow> FinalResponse
     \<Rightarrow> response \<times> database" where
  "categoryVote e db u userID isVIP isOwnSubmission c hashedIP finalResponse =
     (if (case usersLastVoteInfo db u userID of None \<Rightarrow> False | Some (n, d) \<Rightarrow> d = c)
      then (SendStatus (finalStatus finalResponse), db)
      else
        case getSegment db u of
          None \<Rightarrow> (Send 400 (Some ''Submission doesn't exist.''), db)
        | Some videoInfo \<Rightarrow>
            if c \<notin> set (categoryList e) then (Send 400 (Some ''Category doesn't exist.''), db)
            else if \<not> skippable e c then (Send 400 (Some ''Cannot vote for this category''), db)
            else
              let nextCategoryInfo = getCategoryVotes db u c;
                  voteAmount = (if isVIP then 500 else 1);
                  db1 = tallyVote db u userID isVIP c hashedIP (now e);
                  currentCategoryInfo = getCategoryVotes db1 u (st_category videoInfo);
                  submissionInfo = getSegment db1 u;
                  currentCount = currentCategoryCount db1 currentCategoryInfo submissionInfo;
                  db2 = seedBaseline db1 u (st_category videoInfo) currentCategoryInfo submissionInfo;
                  nextCategoryCount =
                    (case nextCategoryInfo of None \<Rightarrow> 0 | Some r \<Rightarrow> cv_votes r) + voteAmount
              in (SendStatus (finalStatus finalResponse),
                  if readyToChange nextCategoryCount currentCount submissionInfo isVIP isOwnSubmission
                  then replaceCategory db2 u c else db2))"

section \<open>\<^verbatim>\<open>voteOnSponsorTime\<close> (lines 240 to 442)\<close>

text \<open>Line 272: the voter submitted the segment.\<close>

definition isOwnSubmission :: "database \<Rightarrow> string \<Rightarrow> string \<Rightarrow> bool" where
  "isOwnSubmission db nonAnonUserID u =
     list_ex (\<lambda>r. st_userID r = nonAnonUserID \<and> st_UUID r = u) (sponsorTimes db)"

text \<open>Line 276; \<^verbatim>\<open>!!row?.locked\<close> is true for a number other than 0.\<close>

definition isSegmentLocked :: "database \<Rightarrow> string \<Rightarrow> bool" where
  "isSegmentLocked db u =
     (case getSegment db u of None \<Rightarrow> False | Some r \<Rightarrow> st_locked r \<noteq> 0)"

text \<open>
  Lines 277 to 279: some row of \<^verbatim>\<open>"lockCategories"\<close> joins a row of
  \<^verbatim>\<open>"sponsorTimes"\<close> with this UUID on video and category.
\<close>

definition isVideoLocked :: "database \<Rightarrow> string \<Rightarrow> bool" where
  "isVideoLocked db u =
     list_ex (\<lambda>lc. list_ex (\<lambda>r. st_UUID r = u \<and> lc_videoID lc = st_videoID r
                                  \<and> lc_category lc = st_category r) (sponsorTimes db))
       (lockCategories db)"

text \<open>Lines 257 to 285: \<^verbatim>\<open>finalResponse\<close> after the lock check.\<close>

definition lockGate :: "database \<Rightarrow> bool \<Rightarrow> jsnum option \<Rightarrow> string \<Rightarrow> FinalResponse" where
  "lockGate db isVIP type u =
     (if \<not> isVIP \<and> type \<noteq> Some (Num 1) \<and> (isSegmentLocked db u \<or> isVideoLocked db u)
      then \<lparr>finalStatus = 403, finalMessage = Some lockedMessage\<rparr>
      else \<lparr>finalStatus = 200, finalMessage = None\<rparr>)"

text \<open>
  Lines 291 to 305: \<open>Some\<close> of the answer when the handler returns there,
  \<open>None\<close> when it goes on.
\<close>

definition hiddenGate ::
  "database \<Rightarrow> jsnum option \<Rightarrow> bool \<Rightarrow> bool \<Rightarrow> string \<Rightarrow> response option" where
  "hiddenGate db type isVIP isOwn u =
     (if type \<noteq> None \<and> \<not> isVIP \<and> \<not> isOwn
      then (case getSegment db u of
              None \<Rightarrow> None
            | Some voteInfo \<Rightarrow>
                if st_votes voteInfo \<le> - 2
                then (if type = Some (Num 1) then Some (Send 403 (Some hiddenUpvoteMessage))
                      else if type = Some (Num 0) then Some (Send 200 None)
                      else None)
                else None)
      else None)"

text \<open>Lines 307 to 311.\<close>

definition warningsCount :: "env \<Rightarrow> database \<Rightarrow> string \<Rightarrow> int" where
  "warningsCount e db nonAnonUserID =
     int (length (filter
       (\<lambda>w. w_userID w = nonAnonUserID
            \<and> w_issueTime w > now e - hoursAfterWarningExpires e * 3600000
            \<and> w_enabled w = 1)
       (warnings db)))"

text \<open>Line 317.\<close>

definition voteTypeEnum :: "int \<Rightarrow> voteTypes" where
  "voteTypeEnum type = (if type = 0 \<or> type = 1 then normal else incorrect)"

text \<open>Line 321.\<close>

definition getVotesRow :: "database \<Rightarrow> string \<Rightarrow> string \<Rightarrow> voteRow option" where
  "getVotesRow db userID u = find (\<lambda>r. v_userID r = userID \<and> v_UUID r = u) (private_votes db)"

text \<open>
  Lines 327 to 340: the weight of the requested vote; \<open>None\<close> is the
  unrecognised type, answered with 400.
\<close>

definition incrementAmount :: "int \<Rightarrow> int option" where
  "incrementAmount type =
     (if type = 1 \<or> type = 11 then Some 1
      else if type = 0 \<or> type = 10 then Some (- 1)
      else if type = 20 then Some 0
      else None)"

text \<open>
  Lines 325 and 341 to 364: the weight of the recorded vote. The first two tests
  read the request's \<^verbatim>\<open>type\<close> beside the stored one.
\<close>

definition oldIncrementAmount :: "voteRow option \<Rightarrow> int \<Rightarrow> int" where
  "oldIncrementAmount votesRow type =
     (case votesRow of
        None \<Rightarrow> 0
      | Some r \<Rightarrow>
          if v_type r = 1 \<or> type = 11 then 1
          else if v_type r = 0 \<or> type = 10 then - 1
          else if v_type r = 2 then - 4
          else if v_type r = 20 then 0
          else if v_type r < 0 then v_type r
          else if v_type r = 12 then - 500
          else if v_type r = 13 then 500
          else 0)"

text \<open>
  Lines 370 to 382: the weight and the type after the privilege rules, as
  \<open>(incrementAmount, type)\<close>. \<open>None\<close> is the TypeError of
  \<^verbatim>\<open>videoInfo.votes\<close> on a segment that does not exist, caught at line 437.
\<close>

definition privilegedAmount ::
  "voteTypes \<Rightarrow> bool \<Rightarrow> bool \<Rightarrow> sponsorTime option \<Rightarrow> int \<Rightarrow> int \<Rightarrow> int \<Rightarrow> (int \<times> int) option" where
  "privilegedAmount vte isVIP isOwn videoInfo inc old type =
     (case vte of
        normal \<Rightarrow>
          if (isVIP \<or> isOwn) \<and> inc < 0
          then (case videoInfo of
                  None \<Rightarrow> None
                | Some vi \<Rightarrow> Some (- (st_votes vi + 2 - old), - (st_votes vi + 2 - old)))
          else Some (inc, type)
      | incorrect \<Rightarrow>
          if isVIP \<or> isOwn
          then Some (500 * inc, if 500 * inc < 0 then 12 else 13)
          else Some (inc, type))"

text \<open>Lines 385 to 390; \<^verbatim>\<open>&&\<close> binds tighter than \<^verbatim>\<open>||\<close>.\<close>

definition ableToVote ::
  "database \<Rightarrow> bool \<Rightarrow> bool \<Rightarrow> int \<Rightarrow> string \<Rightarrow> string \<Rightarrow> string \<Rightarrow> string \<Rightarrow> FinalResponse \<Rightarrow> bool" where
  "ableToVote db isVIP isOwn inc nonAnonUserID u hashedIP userID finalResponse =
     (isVIP \<or>
      ((\<not> (isOwn \<and> inc > 0)
        \<and> list_ex (\<lambda>r. st_userID r = nonAnonUserID) (sponsorTimes db)
        \<and> nonAnonUserID \<notin> set (private_shadowBannedUsers db)
        \<and> \<not> list_ex (\<lambda>r. v_UUID r = u \<and> v_hashedIP r = hashedIP \<and> v_userID r \<noteq> userID)
              (private_votes db))
       \<and> finalStatus finalResponse = 200))"

text \<open>Lines 394 to 398: the ledger row is updated, or inserted when there is none.\<close>

definition updateVotesTable ::
  "database \<Rightarrow> voteRow option \<Rightarrow> int \<Rightarrow> string \<Rightarrow> string \<Rightarrow> string \<Rightarrow> database" where
  "updateVotesTable db votesRow type userID u hashedIP =
     (case votesRow of
        Some _ \<Rightarrow>
          db\<lparr>private_votes :=
               map (\<lambda>r. if v_userID r = userID \<and> v_UUID r = u then r\<lparr>v_type := type\<rparr> else r)
                   (private_votes db)\<rparr>
      | None \<Rightarrow>
          db\<lparr>private_votes := private_votes db @
               [\<lparr>v_UUID = u, v_userID = userID, v_hashedIP = hashedIP, v_type = type\<rparr>]\<rparr>)"

text \<open>Lines 400 to 409: the relative update of the column the vote kind selects.\<close>

definition updateVoteCount :: "database \<Rightarrow> voteTypes \<Rightarrow> string \<Rightarrow> int \<Rightarrow> database" where
  "updateVoteCount db vte u delta =
     db\<lparr>sponsorTimes :=
          map (\<lambda>r. if st_UUID r = u
                    then (case vte of
                            normal \<Rightarrow> r\<lparr>st_votes := st_votes r + delta\<rparr>
                          | incorrect \<Rightarrow> r\<lparr>st_incorrectVotes := st_incorrectVotes r + delta\<rparr>)
                    else r)
              (sponsorTimes db)\<rparr>"

text \<open>Lines 410 to 416.\<close>

definition updateLock :: "database \<Rightarrow> bool \<Rightarrow> int \<Rightarrow> voteTypes \<Rightarrow> string \<Rightarrow> database" where
  "updateLock db isVIP inc vte u =
     (if isVIP \<and> inc > 0 \<and> vte = normal
      then db\<lparr>sponsorTimes :=
             map (\<lambda>r. if st_UUID r = u then r\<lparr>st_locked := 1\<rparr> else r) (sponsorTimes db)\<rparr>
      else if isVIP \<and> inc < 0 \<and> vte = normal
      then db\<lparr>sponsorTimes :=
             map (\<lambda>r. if st_UUID r = u then r\<lparr>st_locked := 0\<rparr> else r) (sponsorTimes db)\<rparr>
      else db)"

text \<open>Lines 392 to 419.\<close>

definition applyVote ::
  "database \<Rightarrow> voteRow option \<Rightarrow> int \<Rightarrow> string \<Rightarrow> string \<Rightarrow> string \<Rightarrow> voteTypes \<Rightarrow> int \<Rightarrow> int \<Rightarrow> bool
     \<Rightarrow> database" where
  "applyVote db votesRow type userID u hashedIP vte inc old isVIP =
     updateLock
       (updateVoteCount (updateVotesTable db votesRow type userID u hashedIP) vte u (inc - old))
       isVIP inc vte u"

text \<open>
  Lines 317 to 441, for a \<^verbatim>\<open>type\<close> that is a number: the \<^verbatim>\<open>try\<close> block and
  its \<^verbatim>\<open>catch\<close>. The webhooks sent after the answer are outside the model.
\<close>

definition scoreVote ::
  "database \<Rightarrow> string \<Rightarrow> string \<Rightarrow> string \<Rightarrow> string \<Rightarrow> bool \<Rightarrow> bool \<Rightarrow> FinalResponse \<Rightarrow> int
     \<Rightarrow> response \<times> database" where
  "scoreVote db u nonAnonUserID userID hashedIP isVIP isOwn finalResponse type =
     (let votesRow = getVotesRow db userID u
      in case incrementAmount type of
           None \<Rightarrow> (SendStatus 400, db)
         | Some inc0 \<Rightarrow>
             (let old = oldIncrementAmount votesRow type;
                  videoInfo = getSegment db u
              in (case privilegedAmount (voteTypeEnum type) isVIP isOwn videoInfo inc0 old type of
                    None \<Rightarrow> (Json 500 internalErrorMessage, db)
                  | Some (inc, type') \<Rightarrow>
                      (Send (finalStatus finalResponse) (finalMessage finalResponse),
                       if ableToVote db isVIP isOwn inc nonAnonUserID u hashedIP userID
                            finalResponse
                       then applyVote db votesRow type' userID u hashedIP (voteTypeEnum type)
                              inc old isVIP
                       else db))))"

text \<open>
  The handler. A \<^verbatim>\<open>type\<close> that is NaN passes every comparison of lines 275 to
  317 as an unrecognised number does and is answered with 400 at line 338.
\<close>

definition voteOnSponsorTime :: "env \<Rightarrow> request \<Rightarrow> database \<Rightarrow> response \<times> database" where
  "voteOnSponsorTime e req db =
     (case (req_UUID req, req_userID req) of
        (Some u, Some paramUserID) \<Rightarrow>
          if req_type req = None \<and> req_category req = None then (SendStatus 400, db)
          else
            let nonAnonUserID = getHash e paramUserID;
                userID = getHash e (paramUserID @ u);
                hashedIP = getHash e (req_ip req @ globalSalt e);
                isVIP = (nonAnonUserID \<in> set (vipUsers db));
                isOwn = isOwnSubmission db nonAnonUserID u;
                finalResponse = lockGate db isVIP (req_type req) u
            in (case req_type req of
                  None \<Rightarrow>
                    (case req_category req of
                       None \<Rightarrow> (SendStatus 400, db)
                     | Some c \<Rightarrow>
                         categoryVote e db u nonAnonUserID isVIP isOwn c hashedIP finalResponse)
                | Some type \<Rightarrow>
                    (case hiddenGate db (req_type req) isVIP isOwn u of
                       Some r \<Rightarrow> (r, db)
                     | None \<Rightarrow>
                         if warningsCount e db nonAnonUserID \<ge> maxNumberOfActiveWarnings e
                         then (Send 403 (Some warningMessage), db)
                         else (case type of
                                 NaN \<Rightarrow> (SendStatus 400, db)
                               | Num n \<Rightarrow>
                                   scoreVote db u nonAnonUserID userID hashedIP isVIP isOwn
                                     finalResponse n)))
      | _ \<Rightarrow> (SendStatus 400, db))"

section \<open>Example states\<close>

text \<open>
  A small installation for concrete runs: one segment \<open>''seg''\<close> submitted by
  \<open>''owner''\<close>, a second segment submitted by \<open>''voter''\<close> (so that
  \<open>''voter''\<close> has a submission), and one VIP. The hash is the identity, the
  warning limit is 1 and every listed category is skippable.
\<close>

definition ex_env :: env where
  "ex_env = \<lparr>categoryList = [''sponsor'', ''selfpromo''], hoursAfterWarningExpires = 24,
     maxNumberOfActiveWarnings = 1, globalSalt = ''salt'', getHash = (\<lambda>s. s),
     skippable = (\<lambda>c. True), now = 100000000\<rparr>"

definition ex_segment :: "int \<Rightarrow> int \<Rightarrow> sponsorTime" where
  "ex_segment v l = \<lparr>st_UUID = ''seg'', st_userID = ''owner'', st_videoID = ''vid'',
     st_category = ''sponsor'', st_votes = v, st_incorrectVotes = 0, st_locked = l,
     st_timeSubmitted = 5\<rparr>"

definition ex_other :: sponsorTime where
  "ex_other = \<lparr>st_UUID = ''other'', st_userID = ''voter'', st_videoID = ''vid2'',
     st_category = ''sponsor'', st_votes = 0, st_incorrectVotes = 0, st_locked = 0,
     st_timeSubmitted = 6\<rparr>"

text \<open>
  The state with score \<open>v\<close> and lock flag \<open>l\<close> on \<open>''seg''\<close>, warnings
  \<open>ws\<close> and ledger \<open>vs\<close>.
\<close>

definition ex_db :: "int \<Rightarrow> int \<Rightarrow> warning list \<Rightarrow> voteRow list \<Rightarrow> database" where
  "ex_db v l ws vs = \<lparr>sponsorTimes = [ex_segment v l, ex_other], vipUsers = [''vip''],
     categoryVotes = [], lockCategories = [], warnings = ws, private_votes = vs,
     private_categoryVotes = [], private_shadowBannedUsers = []\<rparr>"

text \<open>An enabled warning inside the recency window of \<open>ex_env\<close>.\<close>

definition ex_warning :: "string \<Rightarrow> warning" where
  "ex_warning p = \<lparr>w_userID = p, w_issueTime = 99999999, w_enabled = 1\<rparr>"

text \<open>A request on \<open>''seg''\<close> by the user \<open>p\<close>.\<close>

definition ex_request :: "string \<Rightarrow> jsnum option \<Rightarrow> string option \<Rightarrow> request" where
  "ex_request p t c = \<lparr>req_UUID = Some ''seg'', req_userID = Some p, req_type = t,
     req_category = c, req_ip = ''ip''\<rparr>"

text \<open>The ledger row of the user \<open>p\<close> on \<open>''seg''\<close> with stored type \<open>t\<close>.\<close>

definition ex_vote :: "string \<Rightarrow> int \<Rightarrow> voteRow" where
  "ex_vote p t = \<lparr>v_UUID = ''seg'', v_userID = p @ ''seg'', v_hashedIP = ''ipsalt'', v_type = t\<rparr>"



text \<open>A row of the private table: the category vote of the user \<open>p\<close> for \<open>c\<close> on \<open>''seg''\<close>.\<close>

definition ex_private :: "string \<Rightarrow> string \<Rightarrow> privateCategoryVote" where
  "ex_private p c = \<lparr>pcv_UUID = ''seg'', pcv_userID = p, pcv_hashedIP = ''ipsalt'',
     pcv_category = c, pcv_timeSubmitted = 7\<rparr>"

section \<open>Lemmas on the queries\<close>

lemmas ex_defs = ex_env_def ex_segment_def ex_other_def ex_db_def ex_request_def ex_warning_def

lemmas vote_defs = voteOnSponsorTime_def scoreVote_def lockGate_def hiddenGate_def
  warningsCount_def isOwnSubmission_def isSegmentLocked_def isVideoLocked_def getSegment_def
  getVotesRow_def incrementAmount_def oldIncrementAmount_def privilegedAmount_def
  voteTypeEnum_def ableToVote_def applyVote_def updateVotesTable_def updateVoteCount_def
  updateLock_def

text \<open>An update that keeps the selecting columns does not change which row is found.\<close>

lemma find_map_pres:
  assumes "\<And>x. P (f x) = P x"
  shows "find P (map f xs) = map_option f (find P xs)"
  by (induction xs) (simp_all add: assms)

lemma find_map_fixed:
  assumes "\<And>x. P (f x) = P x" and "\<And>x. P x \<Longrightarrow> f x = x"
  shows "find P (map f xs) = find P xs"
  by (induction xs) (simp_all add: assms)

lemma find_append_Some: "find P xs = Some x \<Longrightarrow> find P (xs @ ys) = Some x"
  by (induction xs) (auto split: if_splits)

lemma find_append_None: "find P xs = None \<Longrightarrow> find P (xs @ ys) = find P ys"
  by (induction xs) (auto split: if_splits)

lemma list_ex_find: "list_ex P xs \<longleftrightarrow> find P xs \<noteq> None"
  by (induction xs) auto

text \<open>The voter of an own submission votes on a segment that exists.\<close>

lemma isOwnSubmission_getSegment:
  "isOwnSubmission db n u \<Longrightarrow> getSegment db u \<noteq> None"
  by (auto simp: isOwnSubmission_def getSegment_def list_ex_iff find_None_iff)

section \<open>The gate on hidden segments\<close>

text \<open>
  Claim C7. On a segment whose score is at or below -2, a voter who is neither
  VIP nor the submitter gets 403 with a message for a plain upvote (type 1), and
  an empty 200 for a plain downvote (type 0); in both cases no table changes.
\<close>

theorem hidden_segment_gate:
  assumes "req_UUID req = Some u" and "req_userID req = Some p"
    and "getSegment db u = Some seg" and "st_votes seg \<le> - 2"
    and "getHash e p \<notin> set (vipUsers db)"
    and "\<not> isOwnSubmission db (getHash e p) u"
  shows "(req_type req = Some (Num 1) \<longrightarrow>
            voteOnSponsorTime e req db = (Send 403 (Some hiddenUpvoteMessage), db))
       \<and> (req_type req = Some (Num 0) \<longrightarrow>
            voteOnSponsorTime e req db = (Send 200 None, db))"
  using assms by (simp add: voteOnSponsorTime_def hiddenGate_def Let_def)

theorem hidden_segment_gate_witness:
  "voteOnSponsorTime ex_env (ex_request ''voter'' (Some (Num 1)) None) (ex_db (- 2) 0 [] [])
     = (Send 403 (Some hiddenUpvoteMessage), ex_db (- 2) 0 [] [])
   \<and> voteOnSponsorTime ex_env (ex_request ''voter'' (Some (Num 0)) None) (ex_db (- 2) 0 [] [])
     = (Send 200 None, ex_db (- 2) 0 [] [])"
  using hidden_segment_gate [of "ex_request ''voter'' (Some (Num 1)) None" "''seg''" "''voter''"
      "ex_db (- 2) 0 [] []" "ex_segment (- 2) 0" ex_env]
    hidden_segment_gate [of "ex_request ''voter'' (Some (Num 0)) None" "''seg''" "''voter''"
      "ex_db (- 2) 0 [] []" "ex_segment (- 2) 0" ex_env]
  by (simp add: ex_defs getSegment_def isOwnSubmission_def)

section \<open>Score votes\<close>

lemma sponsorTimes_updateVotesTable:
  "sponsorTimes (updateVotesTable db row t uid u h) = sponsorTimes db"
  by (simp add: updateVotesTable_def split: option.split)

text \<open>
  Claim C8. A voter who is neither VIP nor the submitter, whose ledger row on the
  segment holds a plain downvote (stored type 0, weight -1), casts a plain upvote
  that passes every gate (segment not hidden, warnings below the limit,
  \<open>ableToVote\<close>): the answer is 200, every row of the segment gains exactly 2
  on its score counter, and the ledger row now holds type 1.
\<close>

theorem downvote_to_upvote_swing:
  assumes "req_UUID req = Some u" and "req_userID req = Some p"
    and "req_type req = Some (Num 1)"
    and "getHash e p \<notin> set (vipUsers db)"
    and "\<not> isOwnSubmission db (getHash e p) u"
    and "getVotesRow db (getHash e (p @ u)) u = Some row" and "v_type row = 0"
    and "getSegment db u = Some seg" and "st_votes seg > - 2"
    and "warningsCount e db (getHash e p) < maxNumberOfActiveWarnings e"
    and "ableToVote db False False 1 (getHash e p) u (getHash e (req_ip req @ globalSalt e))
           (getHash e (p @ u)) \<lparr>finalStatus = 200, finalMessage = None\<rparr>"
  shows "fst (voteOnSponsorTime e req db) = Send 200 None
    \<and> sponsorTimes (snd (voteOnSponsorTime e req db)) =
        map (\<lambda>r. if st_UUID r = u then r\<lparr>st_votes := st_votes r + 2\<rparr> else r) (sponsorTimes db)
    \<and> getSegment (snd (voteOnSponsorTime e req db)) u
        = Some (seg\<lparr>st_votes := st_votes seg + 2\<rparr>)
    \<and> getVotesRow (snd (voteOnSponsorTime e req db)) (getHash e (p @ u)) u
        = Some (row\<lparr>v_type := 1\<rparr>)"
proof -
  let ?uid = "getHash e (p @ u)"
  let ?f = "\<lambda>r. if st_UUID r = u then r\<lparr>st_votes := st_votes r + 2\<rparr> else r"
  let ?g = "\<lambda>r. if v_userID r = ?uid \<and> v_UUID r = u then r\<lparr>v_type := 1\<rparr> else r"
  have res: "voteOnSponsorTime e req db =
      (Send 200 None,
       db\<lparr>private_votes := map ?g (private_votes db), sponsorTimes := map ?f (sponsorTimes db)\<rparr>)"
    using assms
    by (simp add: voteOnSponsorTime_def hiddenGate_def lockGate_def scoreVote_def
        incrementAmount_def oldIncrementAmount_def privilegedAmount_def voteTypeEnum_def
        applyVote_def updateVotesTable_def updateVoteCount_def updateLock_def Let_def)
  have seg: "find (\<lambda>r. st_UUID r = u) (map ?f (sponsorTimes db))
      = map_option ?f (find (\<lambda>r. st_UUID r = u) (sponsorTimes db))"
    by (rule find_map_pres) simp
  have row: "find (\<lambda>r. v_userID r = ?uid \<and> v_UUID r = u) (map ?g (private_votes db))
      = map_option ?g (find (\<lambda>r. v_userID r = ?uid \<and> v_UUID r = u) (private_votes db))"
    by (rule find_map_pres) simp
  have su: "st_UUID seg = u"
    using assms(8) by (auto simp: getSegment_def dest: find_Some_iff[THEN iffD1])
  have ru: "v_userID row = ?uid \<and> v_UUID row = u"
    using assms(6) by (auto simp: getVotesRow_def dest: find_Some_iff[THEN iffD1])
  show ?thesis
    using assms(6,8) su ru by (simp add: res getSegment_def getVotesRow_def seg row)
qed

theorem downvote_to_upvote_swing_witness:
  "fst (voteOnSponsorTime ex_env (ex_request ''voter'' (Some (Num 1)) None)
          (ex_db 0 0 [] [ex_vote ''voter'' 0])) = Send 200 None
   \<and> getSegment (snd (voteOnSponsorTime ex_env (ex_request ''voter'' (Some (Num 1)) None)
          (ex_db 0 0 [] [ex_vote ''voter'' 0]))) ''seg'' = Some (ex_segment 2 0)
   \<and> getVotesRow (snd (voteOnSponsorTime ex_env (ex_request ''voter'' (Some (Num 1)) None)
          (ex_db 0 0 [] [ex_vote ''voter'' 0]))) ''voterseg'' ''seg'' = Some (ex_vote ''voter'' 1)"
  using downvote_to_upvote_swing [of "ex_request ''voter'' (Some (Num 1)) None" "''seg''"
      "''voter''" ex_env "ex_db 0 0 [] [ex_vote ''voter'' 0]" "ex_vote ''voter'' 0"
      "ex_segment 0 0"]
  by (simp add: ex_defs ex_vote_def getSegment_def isOwnSubmission_def warningsCount_def
      getVotesRow_def ableToVote_def)

text \<open>
  Claim C1, as the code has it. A VIP below the warning limit casts a plain
  downvote (type 0) on a segment with score 1, with a recorded weight of 0: the
  weight of the vote is -(1 + 2 - 0) = -3 and is what the ledger stores; the
  score counter becomes 1 + (-3) = -2; the lock flag becomes 0.
\<close>

theorem vip_downvote_floor:
  assumes "req_UUID req = Some u" and "req_userID req = Some p"
    and "req_type req = Some (Num 0)"
    and "getHash e p \<in> set (vipUsers db)"
    and "getSegment db u = Some seg" and "st_votes seg = 1"
    and "oldIncrementAmount (getVotesRow db (getHash e (p @ u)) u) 0 = 0"
    and "warningsCount e db (getHash e p) < maxNumberOfActiveWarnings e"
  shows "fst (voteOnSponsorTime e req db) = Send 200 None
    \<and> getSegment (snd (voteOnSponsorTime e req db)) u
        = Some (seg\<lparr>st_votes := - 2, st_locked := 0\<rparr>)
    \<and> map_option v_type (getVotesRow (snd (voteOnSponsorTime e req db)) (getHash e (p @ u)) u)
        = Some (- 3)"
proof -
  let ?uid = "getHash e (p @ u)"
  let ?row = "getVotesRow db ?uid u"
  let ?db1 = "updateVotesTable db ?row (- 3) ?uid u (getHash e (req_ip req @ globalSalt e))"
  let ?f = "\<lambda>r. if st_UUID r = u then r\<lparr>st_votes := st_votes r + (- 3)\<rparr> else r"
  let ?l = "\<lambda>r. if st_UUID r = u then r\<lparr>st_locked := 0\<rparr> else r"
  let ?db2 = "?db1\<lparr>sponsorTimes := map ?l (map ?f (sponsorTimes db))\<rparr>"
  have res: "voteOnSponsorTime e req db = (Send 200 None, ?db2)"
    using assms(1-6,8)
    by (simp add: voteOnSponsorTime_def hiddenGate_def lockGate_def scoreVote_def
        incrementAmount_def privilegedAmount_def voteTypeEnum_def ableToVote_def
        applyVote_def updateVoteCount_def updateLock_def Let_def assms(7)
        sponsorTimes_updateVotesTable del: map_map cong: if_cong)
  have su: "st_UUID seg = u"
    using assms(5) by (auto simp: getSegment_def dest: find_Some_iff[THEN iffD1])
  have seg: "find (\<lambda>r. st_UUID r = u) (map ?l (map ?f (sponsorTimes db)))
      = map_option ?l (map_option ?f (find (\<lambda>r. st_UUID r = u) (sponsorTimes db)))"
    by (simp add: find_map_pres option.map_comp del: map_map)
  have led: "map_option v_type (getVotesRow ?db1 ?uid u) = Some (- 3)"
  proof (cases ?row)
    case None
    then show ?thesis
      by (simp add: updateVotesTable_def getVotesRow_def find_append_None)
  next
    case (Some r)
    let ?g = "\<lambda>r. if v_userID r = ?uid \<and> v_UUID r = u then r\<lparr>v_type := - 3\<rparr> else r"
    have "find (\<lambda>r. v_userID r = ?uid \<and> v_UUID r = u) (map ?g (private_votes db))
      = map_option ?g (find (\<lambda>r. v_userID r = ?uid \<and> v_UUID r = u) (private_votes db))"
      by (rule find_map_pres) simp
    moreover have "v_userID r = ?uid \<and> v_UUID r = u"
      using Some by (auto simp: getVotesRow_def dest: find_Some_iff[THEN iffD1])
    ultimately show ?thesis
      using Some by (simp add: updateVotesTable_def getVotesRow_def)
  qed
  have led': "getVotesRow ?db2 ?uid u = getVotesRow ?db1 ?uid u"
    by (simp add: getVotesRow_def)
  have seg': "getSegment ?db2 u = Some (seg\<lparr>st_votes := - 2, st_locked := 0\<rparr>)"
    using assms(5,6) su by (simp add: getSegment_def seg del: map_map)
  show ?thesis
    unfolding res fst_conv snd_conv led' led seg' by simp
qed

theorem vip_downvote_floor_witness:
  "fst (voteOnSponsorTime ex_env (ex_request ''vip'' (Some (Num 0)) None) (ex_db 1 1 [] []))
     = Send 200 None
   \<and> getSegment (snd (voteOnSponsorTime ex_env (ex_request ''vip'' (Some (Num 0)) None)
        (ex_db 1 1 [] []))) ''seg'' = Some (ex_segment (- 2) 0)
   \<and> map_option v_type (getVotesRow (snd (voteOnSponsorTime ex_env
        (ex_request ''vip'' (Some (Num 0)) None) (ex_db 1 1 [] []))) ''vipseg'' ''seg'')
     = Some (- 3)"
  using vip_downvote_floor [of "ex_request ''vip'' (Some (Num 0)) None" "''seg''" "''vip''"
      ex_env "ex_db 1 1 [] []" "ex_segment 1 1"]
  by (simp add: ex_defs getSegment_def warningsCount_def getVotesRow_def oldIncrementAmount_def)

text \<open>
  Claim C1, as the spec states it, fails: on the locked segment with score 1 and an
  empty ledger, the VIP's plain downvote leaves the score counter at -2, not -3.
\<close>

theorem vip_downvote_score_counterexample:
  "map_option st_votes (getSegment (snd (voteOnSponsorTime ex_env
       (ex_request ''vip'' (Some (Num 0)) None) (ex_db 1 1 [] []))) ''seg'') = Some (- 2)
   \<and> map_option st_votes (getSegment (snd (voteOnSponsorTime ex_env
       (ex_request ''vip'' (Some (Num 0)) None) (ex_db 1 1 [] []))) ''seg'') \<noteq> Some (- 3)"
  by (simp add: ex_defs vote_defs Let_def)

text \<open>
  Claim C10, as the code has it. A voter who is not VIP casts a plain upvote
  (type 1) on a segment of their own: no table changes, and the answer is an empty
  200, unless the voter has reached the limit of active warnings, where the answer
  is the 403 of the warning check.
\<close>

theorem own_upvote_ineligible:
  assumes "req_UUID req = Some u" and "req_userID req = Some p"
    and "req_type req = Some (Num 1)"
    and "getHash e p \<notin> set (vipUsers db)"
    and "isOwnSubmission db (getHash e p) u"
  shows "voteOnSponsorTime e req db =
     (if warningsCount e db (getHash e p) \<ge> maxNumberOfActiveWarnings e
      then Send 403 (Some warningMessage) else Send 200 None, db)"
  using assms
  by (simp add: voteOnSponsorTime_def hiddenGate_def lockGate_def scoreVote_def
      incrementAmount_def privilegedAmount_def voteTypeEnum_def ableToVote_def Let_def)

theorem own_upvote_ineligible_witness:
  "voteOnSponsorTime ex_env (ex_request ''owner'' (Some (Num 1)) None) (ex_db 1 0 [] [])
     = (Send 200 None, ex_db 1 0 [] [])"
  using own_upvote_ineligible [of "ex_request ''owner'' (Some (Num 1)) None" "''seg''"
      "''owner''" ex_env "ex_db 1 0 [] []"]
  by (simp add: ex_defs isOwnSubmission_def warningsCount_def)

text \<open>
  Claim C10, as the spec states it, fails on the answer: the submitter with one
  active warning (the limit of \<open>ex_env\<close>) upvotes their own segment and receives
  403 with the warning message, not the success status.
\<close>

theorem own_upvote_warned_counterexample:
  "fst (voteOnSponsorTime ex_env (ex_request ''owner'' (Some (Num 1)) None)
          (ex_db 1 0 [ex_warning ''owner''] [])) = Send 403 (Some warningMessage)"
  by (simp add: ex_defs vote_defs Let_def)

section \<open>Votes that the gates turn away\<close>

lemmas category_defs = categoryVote_def tallyVote_def addVote_def recordVote_def
  usersLastVoteInfo_def getCategoryVotes_def startingVotes_def currentCategoryCount_def
  seedBaseline_def readyToChange_def replaceCategory_def ceil_half_def isUserVIP_def

text \<open>
  A voter who is not VIP never meets the TypeError of line 373: the privilege rule
  reads \<^verbatim>\<open>videoInfo.votes\<close> only for the submitter, whose segment exists.
\<close>

lemma privilegedAmount_nonVIP:
  assumes "isOwn \<longrightarrow> videoInfo \<noteq> None"
  shows "privilegedAmount vte False isOwn videoInfo inc old t \<noteq> None"
  using assms by (cases vte) (auto simp: privilegedAmount_def split: option.splits)

text \<open>
  With a status other than 200 in \<^verbatim>\<open>finalResponse\<close>, the score vote of a voter
  who is not VIP writes nothing and answers that status, or 400 for an
  unrecognised type.
\<close>

lemma scoreVote_rejected:
  assumes "finalStatus fr \<noteq> 200" and "isOwn \<longrightarrow> getSegment db u \<noteq> None"
  shows "scoreVote db u n uid h False isOwn fr t =
     (if incrementAmount t = None then SendStatus 400
      else Send (finalStatus fr) (finalMessage fr), db)"
proof (cases "incrementAmount t")
  case None
  then show ?thesis by (simp add: scoreVote_def)
next
  case (Some inc0)
  obtain inc t' where pa: "privilegedAmount (voteTypeEnum t) False isOwn (getSegment db u) inc0
      (oldIncrementAmount (getVotesRow db uid u) t) t = Some (inc, t')"
    using privilegedAmount_nonVIP [OF assms(2)] by fastforce
  show ?thesis
    using assms(1) Some pa by (simp add: scoreVote_def ableToVote_def Let_def)
qed

text \<open>
  Claim C4, as the code has it, for score votes. On a segment that is locked or
  whose video and category are locked, a score vote of any type but 1 by a voter
  who is not VIP changes no table. The answer is the 403 with the moderator's
  message, unless an earlier answer is given: the empty 200 of the hidden-segment
  gate (plain downvote by a voter other than the submitter on a score at or below
  -2), the 403 of the warning check, or the 400 of an unrecognised type.
\<close>

theorem locked_score_vote_noop:
  assumes "req_UUID req = Some u" and "req_userID req = Some p"
    and "req_type req = Some t" and "t \<noteq> Num 1"
    and "getHash e p \<notin> set (vipUsers db)"
    and "isSegmentLocked db u \<or> isVideoLocked db u"
  shows "snd (voteOnSponsorTime e req db) = db
    \<and> fst (voteOnSponsorTime e req db) =
       (if \<not> isOwnSubmission db (getHash e p) u \<and> t = Num 0
           \<and> (\<exists>s. getSegment db u = Some s \<and> st_votes s \<le> - 2)
        then Send 200 None
        else if warningsCount e db (getHash e p) \<ge> maxNumberOfActiveWarnings e
        then Send 403 (Some warningMessage)
        else if t \<notin> {Num 0, Num 10, Num 11, Num 20} then SendStatus 400
        else Send 403 (Some lockedMessage))"
proof -
  let ?own = "isOwnSubmission db (getHash e p) u"
  let ?fr = "\<lparr>finalStatus = 403, finalMessage = Some lockedMessage\<rparr>"
  let ?hidden = "\<exists>s. getSegment db u = Some s \<and> st_votes s \<le> - 2"
  have lg: "t' \<noteq> Num 1 \<Longrightarrow> lockGate db False (Some t') u = ?fr" for t'
    using assms(6) by (simp add: lockGate_def)
  have hg: "t' \<noteq> Num 1 \<Longrightarrow> hiddenGate db (Some t') False ?own u =
      (if \<not> ?own \<and> t' = Num 0 \<and> ?hidden then Some (Send 200 None) else None)" for t'
    by (auto simp: hiddenGate_def split: option.splits)
  have sv: "scoreVote db u (getHash e p) uid h False own ?fr n =
      (if incrementAmount n = None then SendStatus 400 else Send 403 (Some lockedMessage), db)"
    if "own \<longrightarrow> ?own" for n uid h own
    using scoreVote_rejected [of ?fr own db u] isOwnSubmission_getSegment [of db "getHash e p" u]
      that by auto
  have rec: "(incrementAmount n = None) \<longleftrightarrow> n \<notin> {0, 10, 11, 20, 1}" for n
    by (simp add: incrementAmount_def)
  show ?thesis
  proof (cases t)
    case NaN
    with assms(1,2,3,5) show ?thesis
      by (simp add: voteOnSponsorTime_def Let_def hg)
  next
    case (Num n)
    with assms(4) have n1: "n \<noteq> 1" by simp
    from Num assms(3) have rt: "req_type req = Some (Num n)" by simp
    show ?thesis
      unfolding Num using assms(1,2,5) rt n1
      by (simp add: voteOnSponsorTime_def Let_def lg hg sv rec)
  qed
qed

theorem locked_score_vote_noop_witness:
  "snd (voteOnSponsorTime ex_env (ex_request ''voter'' (Some (Num 0)) None) (ex_db 1 1 [] []))
     = ex_db 1 1 [] []
   \<and> fst (voteOnSponsorTime ex_env (ex_request ''voter'' (Some (Num 0)) None) (ex_db 1 1 [] []))
     = Send 403 (Some lockedMessage)"
  using locked_score_vote_noop [of "ex_request ''voter'' (Some (Num 0)) None" "''seg''"
      "''voter''" "Num 0" ex_env "ex_db 1 1 [] []"]
  by (simp add: ex_defs isSegmentLocked_def getSegment_def isOwnSubmission_def warningsCount_def)

text \<open>
  Claim C4, as the spec states it, fails twice on a locked segment and a voter who
  is not VIP. A category vote is answered 403 and yet tallied: the candidate's
  tally row and the incumbent's baseline row are written, with the two rows of the
  private table. And a plain downvote on a locked segment whose score is -2 is
  answered with an empty 200, not with a status and message of its own.
\<close>

theorem locked_vote_counterexample:
  "categoryVotes (ex_db 1 1 [] []) = []
   \<and> voteOnSponsorTime ex_env (ex_request ''voter'' None (Some ''selfpromo'')) (ex_db 1 1 [] [])
     = (SendStatus 403,
        (ex_db 1 1 [] [])\<lparr>categoryVotes :=
            [\<lparr>cv_UUID = ''seg'', cv_category = ''selfpromo'', cv_votes = 1\<rparr>,
             \<lparr>cv_UUID = ''seg'', cv_category = ''sponsor'', cv_votes = 1\<rparr>],
          private_categoryVotes :=
            [\<lparr>pcv_UUID = ''seg'', pcv_userID = ''voter'', pcv_hashedIP = ''ipsalt'',
              pcv_category = ''selfpromo'', pcv_timeSubmitted = 100000000\<rparr>,
             \<lparr>pcv_UUID = ''seg'', pcv_userID = ''owner'', pcv_hashedIP = ''unknown'',
              pcv_category = ''sponsor'', pcv_timeSubmitted = 5\<rparr>]\<rparr>)
   \<and> voteOnSponsorTime ex_env (ex_request ''voter'' (Some (Num 0)) None) (ex_db (- 2) 1 [] [])
     = (Send 200 None, ex_db (- 2) 1 [] [])"
  by (simp add: ex_defs vote_defs category_defs Let_def)

text \<open>
  Claim C5, as the code has it, for score votes. A score vote by a voter who has
  reached the limit of active warnings changes no table. The answer is the 403 of
  the warning check, unless the hidden-segment gate answers first: for a voter who
  is neither VIP nor the submitter on a score at or below -2, 403 for type 1 and
  an empty 200 for type 0.
\<close>

theorem warned_score_vote_rejected:
  assumes "req_UUID req = Some u" and "req_userID req = Some p"
    and "req_type req = Some t"
    and "warningsCount e db (getHash e p) \<ge> maxNumberOfActiveWarnings e"
  shows "snd (voteOnSponsorTime e req db) = db
    \<and> fst (voteOnSponsorTime e req db) =
       (if getHash e p \<notin> set (vipUsers db) \<and> \<not> isOwnSubmission db (getHash e p) u
           \<and> (\<exists>s. getSegment db u = Some s \<and> st_votes s \<le> - 2) \<and> t = Num 1
        then Send 403 (Some hiddenUpvoteMessage)
        else if getHash e p \<notin> set (vipUsers db) \<and> \<not> isOwnSubmission db (getHash e p) u
           \<and> (\<exists>s. getSegment db u = Some s \<and> st_votes s \<le> - 2) \<and> t = Num 0
        then Send 200 None
        else Send 403 (Some warningMessage))"
  using assms
  by (auto simp: voteOnSponsorTime_def Let_def hiddenGate_def split: option.splits)

theorem warned_score_vote_rejected_witness:
  "snd (voteOnSponsorTime ex_env (ex_request ''voter'' (Some (Num 0)) None)
          (ex_db 1 0 [ex_warning ''voter''] [])) = ex_db 1 0 [ex_warning ''voter''] []
   \<and> fst (voteOnSponsorTime ex_env (ex_request ''voter'' (Some (Num 0)) None)
          (ex_db 1 0 [ex_warning ''voter''] [])) = Send 403 (Some warningMessage)"
  using warned_score_vote_rejected [of "ex_request ''voter'' (Some (Num 0)) None" "''seg''"
      "''voter''" "Num 0" ex_env "ex_db 1 0 [ex_warning ''voter''] []"]
  by (simp add: ex_defs getSegment_def isOwnSubmission_def warningsCount_def)

text \<open>
  Claim C5, as the spec states it, fails twice for the voter with one active
  warning (the limit of \<open>ex_env\<close>). A category vote on an unlocked segment is
  answered 200 and tallied: line 288 hands the request to \<^verbatim>\<open>categoryVote\<close>
  before the warning check of line 313 is reached. And a plain downvote on a
  segment whose score is -2 is answered with the empty 200 of line 301, not
  rejected.
\<close>

theorem warned_vote_counterexample:
  "maxNumberOfActiveWarnings ex_env
     \<le> warningsCount ex_env (ex_db 1 0 [ex_warning ''voter''] []) ''voter''
   \<and> categoryVotes (ex_db 1 0 [ex_warning ''voter''] []) = []
   \<and> voteOnSponsorTime ex_env (ex_request ''voter'' None (Some ''selfpromo''))
       (ex_db 1 0 [ex_warning ''voter''] [])
     = (SendStatus 200,
        (ex_db 1 0 [ex_warning ''voter''] [])\<lparr>categoryVotes :=
            [\<lparr>cv_UUID = ''seg'', cv_category = ''selfpromo'', cv_votes = 1\<rparr>,
             \<lparr>cv_UUID = ''seg'', cv_category = ''sponsor'', cv_votes = 1\<rparr>],
          private_categoryVotes :=
            [\<lparr>pcv_UUID = ''seg'', pcv_userID = ''voter'', pcv_hashedIP = ''ipsalt'',
              pcv_category = ''selfpromo'', pcv_timeSubmitted = 100000000\<rparr>,
             \<lparr>pcv_UUID = ''seg'', pcv_userID = ''owner'', pcv_hashedIP = ''unknown'',
              pcv_category = ''sponsor'', pcv_timeSubmitted = 5\<rparr>]\<rparr>)
   \<and> voteOnSponsorTime ex_env (ex_request ''voter'' (Some (Num 0)) None)
       (ex_db (- 2) 0 [ex_warning ''voter''] [])
     = (Send 200 None, ex_db (- 2) 0 [ex_warning ''voter''] [])"
  by (simp add: ex_defs vote_defs category_defs Let_def)

section \<open>Category votes\<close>

text \<open>
  The first group of line 151 is the least category, not the first row: the
  submitter's rows \<open>''sponsor''\<close>, \<open>''selfpromo''\<close> give \<open>''selfpromo''\<close>.
\<close>

lemma usersLastVoteInfo_ascending:
  "usersLastVoteInfo
     ((ex_db 1 0 [] [])\<lparr>private_categoryVotes :=
         [ex_private ''owner'' ''sponsor'', ex_private ''owner'' ''selfpromo'']\<rparr>)
     ''seg'' ''owner'' = Some (1, ''selfpromo'')"
  by (simp add: usersLastVoteInfo_def firstCategory_def ex_defs ex_private_def)

text \<open>
  The handler reaches such rows. On a segment of category \<open>''selfpromo''\<close> the
  submitter votes \<open>''sponsor''\<close>: line 200 writes the submitter's row for
  \<open>''sponsor''\<close>, line 218 the one for \<open>''selfpromo''\<close>. The submitter's next
  vote, for \<open>''selfpromo''\<close>, is then a double vote (line 153) and changes nothing.
\<close>

lemma owner_second_vote_is_double_vote:
  "snd (voteOnSponsorTime ex_env (ex_request ''owner'' None (Some ''selfpromo''))
      (snd (voteOnSponsorTime ex_env (ex_request ''owner'' None (Some ''sponsor''))
         ((ex_db 1 0 [] [])\<lparr>sponsorTimes := [(ex_segment 1 0)\<lparr>st_category := ''selfpromo''\<rparr>, ex_other]\<rparr>))))
   = snd (voteOnSponsorTime ex_env (ex_request ''owner'' None (Some ''sponsor''))
         ((ex_db 1 0 [] [])\<lparr>sponsorTimes := [(ex_segment 1 0)\<lparr>st_category := ''selfpromo''\<rparr>, ex_other]\<rparr>))
   \<and> map pcv_category (private_categoryVotes
       (snd (voteOnSponsorTime ex_env (ex_request ''owner'' None (Some ''sponsor''))
         ((ex_db 1 0 [] [])\<lparr>sponsorTimes := [(ex_segment 1 0)\<lparr>st_category := ''selfpromo''\<rparr>, ex_other]\<rparr>))))
     = [''sponsor'', ''selfpromo'']"
  by (simp add: ex_defs vote_defs category_defs firstCategory_def Let_def)

text \<open>\<open>ceil_half\<close> is the ceiling of the half, as \<^verbatim>\<open>Math.ceil(v / 2)\<close> computes it.\<close>

lemma ceil_half_ceiling: "ceil_half v = \<lceil>real_of_int v / 2\<rceil>"
  unfolding ceil_half_def by linarith


text \<open>Tallying a vote touches the two tables of category votes only.\<close>

lemma tallyVote_sponsorTimes:
  "sponsorTimes (tallyVote db u uid isVIP c h t) = sponsorTimes db"
  by (simp add: tallyVote_def addVote_def recordVote_def Let_def split: option.split prod.split)


text \<open>After lines 185 to 191 the voted category has a tally row: the old tally, or 0, plus the weight.\<close>

lemma addVote_get:
  "\<exists>r. getCategoryVotes (addVote db u c a) u c = Some r
     \<and> cv_votes r = (case getCategoryVotes db u c of None \<Rightarrow> 0 | Some q \<Rightarrow> cv_votes q) + a"
proof (cases "getCategoryVotes db u c")
  case None
  then show ?thesis
    by (simp add: addVote_def getCategoryVotes_def list_ex_find find_append_None)
next
  case (Some q)
  let ?P = "\<lambda>r. cv_UUID r = u \<and> cv_category r = c"
  let ?f = "\<lambda>r. if cv_UUID r = u \<and> cv_category r = c then r\<lparr>cv_votes := cv_votes r + a\<rparr> else r"
  have "find ?P (map ?f (categoryVotes db)) = map_option ?f (find ?P (categoryVotes db))"
    by (rule find_map_pres) simp
  moreover have "?P q"
    using Some by (auto simp: getCategoryVotes_def dest: find_Some_iff[THEN iffD1])
  ultimately show ?thesis
    using Some by (simp add: addVote_def getCategoryVotes_def list_ex_find)
qed

text \<open>Taking back an earlier vote for another category leaves the voted category's tally as it is.\<close>

lemma recordVote_get:
  assumes "\<forall>n. lastVote \<noteq> Some (n, c)"
  shows "getCategoryVotes (recordVote db lastVote u uid c h t a) u c = getCategoryVotes db u c"
proof (cases lastVote)
  case None
  then show ?thesis by (simp add: recordVote_def getCategoryVotes_def)
next
  case (Some nd)
  obtain n d where nd: "nd = (n, d)" by (cases nd)
  with Some assms have dc: "d \<noteq> c" by auto
  let ?P = "\<lambda>r. cv_UUID r = u \<and> cv_category r = c"
  let ?f = "\<lambda>r. if cv_UUID r = u \<and> cv_category r = d then r\<lparr>cv_votes := cv_votes r - a\<rparr> else r"
  have "find ?P (map ?f (categoryVotes db)) = find ?P (categoryVotes db)"
    by (rule find_map_fixed) (use dc in auto)
  then show ?thesis
    using Some nd by (simp add: recordVote_def getCategoryVotes_def)
qed

lemma tallyVote_get_candidate:
  assumes "\<forall>n. usersLastVoteInfo db u uid \<noteq> Some (n, c)"
  shows "\<exists>r. getCategoryVotes (tallyVote db u uid isVIP c h t) u c = Some r
     \<and> cv_votes r = (case getCategoryVotes db u c of None \<Rightarrow> 0 | Some q \<Rightarrow> cv_votes q)
                      + (if isVIP then 500 else 1)"
  using addVote_get [of db u c "if isVIP then 500 else 1"]
  by (simp add: tallyVote_def Let_def recordVote_get [OF assms])

text \<open>
  The function on a vote that passes the checks of lines 153 to 174: not a repeat
  of the voter's last category, the segment exists, the category is listed and
  skippable.
\<close>

lemma categoryVote_tallied:
  assumes "\<forall>n. usersLastVoteInfo db u uid \<noteq> Some (n, c)"
    and "getSegment db u = Some videoInfo"
    and "c \<in> set (categoryList e)" and "skippable e c"
  shows "categoryVote e db u uid isVIP isOwn c h fr =
     (SendStatus (finalStatus fr),
      let db1 = tallyVote db u uid isVIP c h (now e);
          cur = getCategoryVotes db1 u (st_category videoInfo);
          db2 = seedBaseline db1 u (st_category videoInfo) cur (Some videoInfo)
      in if readyToChange
              ((case getCategoryVotes db u c of None \<Rightarrow> 0 | Some r \<Rightarrow> cv_votes r)
                 + (if isVIP then 500 else 1))
              (currentCategoryCount db1 cur (Some videoInfo)) (Some videoInfo) isVIP isOwn
         then replaceCategory db2 u c else db2)"
proof -
  have nd: "\<not> (case usersLastVoteInfo db u uid of None \<Rightarrow> False | Some (n, d) \<Rightarrow> d = c)"
    using assms(1) by (auto split: option.splits)
  have seg1: "getSegment (tallyVote db u uid isVIP c h (now e)) u = Some videoInfo"
    using assms(2) by (simp add: getSegment_def tallyVote_sponsorTimes)
  show ?thesis
    unfolding categoryVote_def using nd assms(2,3,4) by (simp add: Let_def seg1)
qed

text \<open>
  Claim C3. After a category vote for \<open>c\<close> is tallied, both \<open>c\<close> and the
  incumbent category have a tally row in the resulting state (the incumbent's is
  the baseline when it had none), and the segment's category is set to \<open>c\<close>
  exactly when the tally of \<open>c\<close> minus the tally of the incumbent is at least
  the larger of the ceiling of half the segment's score and 2, or the voter is
  VIP, or the voter is the submitter; otherwise table \<^verbatim>\<open>"sponsorTimes"\<close> is as
  before.
\<close>

theorem category_reassignment_rule:
  assumes "\<forall>n. usersLastVoteInfo db u userID \<noteq> Some (n, c)"
    and "getSegment db u = Some videoInfo"
    and "c \<in> set (categoryList e)" and "skippable e c"
  shows "\<exists>rc ri.
      getCategoryVotes (snd (categoryVote e db u userID isVIP isOwn c hashedIP fr)) u c = Some rc
    \<and> getCategoryVotes (snd (categoryVote e db u userID isVIP isOwn c hashedIP fr)) u
        (st_category videoInfo) = Some ri
    \<and> sponsorTimes (snd (categoryVote e db u userID isVIP isOwn c hashedIP fr)) =
        (if cv_votes rc - cv_votes ri \<ge> max \<lceil>real_of_int (st_votes videoInfo) / 2\<rceil> 2
            \<or> isVIP \<or> isOwn
         then map (\<lambda>r. if st_UUID r = u then r\<lparr>st_category := c\<rparr> else r) (sponsorTimes db)
         else sponsorTimes db)"
proof -
  let ?db1 = "tallyVote db u userID isVIP c hashedIP (now e)"
  let ?inc = "st_category videoInfo"
  let ?cur = "getCategoryVotes ?db1 u ?inc"
  let ?db2 = "seedBaseline ?db1 u ?inc ?cur (Some videoInfo)"
  let ?next = "(case getCategoryVotes db u c of None \<Rightarrow> 0 | Some r \<Rightarrow> cv_votes r)
                 + (if isVIP then 500 else 1)"
  let ?cnt = "currentCategoryCount ?db1 ?cur (Some videoInfo)"
  let ?db' = "snd (categoryVote e db u userID isVIP isOwn c hashedIP fr)"
  have res: "?db' = (if readyToChange ?next ?cnt (Some videoInfo) isVIP isOwn
                     then replaceCategory ?db2 u c else ?db2)"
    by (simp add: categoryVote_tallied [OF assms] Let_def)
  obtain rc where rc: "getCategoryVotes ?db1 u c = Some rc" "cv_votes rc = ?next"
    using tallyVote_get_candidate [OF assms(1)] by blast
  have st2: "sponsorTimes ?db2 = sponsorTimes db"
    by (simp add: seedBaseline_def tallyVote_sponsorTimes split: option.split)
  have rc2: "getCategoryVotes ?db2 u c = Some rc"
    using rc(1) by (simp add: seedBaseline_def getCategoryVotes_def find_append_Some split: option.split)
  obtain ri where ri: "getCategoryVotes ?db2 u ?inc = Some ri" "cv_votes ri = ?cnt"
  proof (cases ?cur)
    case None
    then show ?thesis
      using that by (simp add: seedBaseline_def getCategoryVotes_def find_append_None)
  next
    case (Some r)
    then show ?thesis
      using that by (simp add: seedBaseline_def currentCategoryCount_def)
  qed
  have cv': "categoryVotes ?db' = categoryVotes ?db2"
    by (simp add: res replaceCategory_def)
  have st': "sponsorTimes ?db' =
      (if readyToChange ?next ?cnt (Some videoInfo) isVIP isOwn
       then map (\<lambda>r. if st_UUID r = u then r\<lparr>st_category := c\<rparr> else r) (sponsorTimes db)
       else sponsorTimes db)"
    by (simp add: res replaceCategory_def st2)
  have "getCategoryVotes ?db' u c = Some rc" and "getCategoryVotes ?db' u ?inc = Some ri"
    using rc2 ri(1) by (simp_all add: getCategoryVotes_def cv')
  moreover have "readyToChange ?next ?cnt (Some videoInfo) isVIP isOwn \<longleftrightarrow>
      (cv_votes rc - cv_votes ri \<ge> max \<lceil>real_of_int (st_votes videoInfo) / 2\<rceil> 2
         \<or> isVIP \<or> isOwn)"
    by (simp add: readyToChange_def rc(2) ri(2) ceil_half_ceiling)
  ultimately show ?thesis
    using st' by auto
qed

theorem category_reassignment_rule_witness:
  "getCategoryVotes (snd (categoryVote ex_env (ex_db 5 0 [] []) ''seg'' ''voter'' False False
       ''selfpromo'' ''ipsalt'' \<lparr>finalStatus = 200, finalMessage = None\<rparr>)) ''seg'' ''selfpromo''
     = Some \<lparr>cv_UUID = ''seg'', cv_category = ''selfpromo'', cv_votes = 1\<rparr>
   \<and> getCategoryVotes (snd (categoryVote ex_env (ex_db 5 0 [] []) ''seg'' ''voter'' False False
       ''selfpromo'' ''ipsalt'' \<lparr>finalStatus = 200, finalMessage = None\<rparr>)) ''seg'' ''sponsor''
     = Some \<lparr>cv_UUID = ''seg'', cv_category = ''sponsor'', cv_votes = 1\<rparr>
   \<and> sponsorTimes (snd (categoryVote ex_env (ex_db 5 0 [] []) ''seg'' ''voter'' False False
       ''selfpromo'' ''ipsalt'' \<lparr>finalStatus = 200, finalMessage = None\<rparr>))
     = sponsorTimes (ex_db 5 0 [] [])"
  using category_reassignment_rule [of "ex_db 5 0 [] []" "''seg''" "''voter''" "''selfpromo''" "ex_segment 5 0" ex_env
      False False "''ipsalt''" "\<lparr>finalStatus = 200, finalMessage = None\<rparr>"]
  by (simp add: ex_defs category_defs getSegment_def Let_def)







section \<open>The recorded weight and repeated votes\<close>

text \<open>
  For a request of a type other than 10 and 11, the recorded weight is read from
  the stored type alone.
\<close>

lemma oldIncrementAmount_stored:
  assumes "t \<noteq> 10" and "t \<noteq> 11"
  shows "oldIncrementAmount (Some r) t =
     (if v_type r = 1 then 1
      else if v_type r = 0 then - 1
      else if v_type r = 2 then - 4
      else if v_type r = 20 then 0
      else if v_type r < 0 then v_type r
      else if v_type r = 12 then - 500
      else if v_type r = 13 then 500
      else 0)"
  using assms by (simp add: oldIncrementAmount_def)

text \<open>
  A ledger row that stores the requested type itself, as the vote of a voter
  without privilege leaves it, is read back with the weight of the request: the
  repeated vote has delta 0.
\<close>

lemma plain_revote_delta_zero:
  assumes "incrementAmount t = Some inc" and "v_type r = t"
  shows "inc - oldIncrementAmount (Some r) t = 0"
  using assms by (auto simp: incrementAmount_def oldIncrementAmount_def split: if_splits)

text \<open>
  Claim C6 on the code. The recorded weight depends on the type of the new
  request: the stored type 12 is read as -1 under a request of type 10 and as -500
  under a request of type 0; the stored type 0 is read as +1 under a request of
  type 11 and as -1 under a request of type 1. Lines 342 and 345 compare the
  request's \<^verbatim>\<open>type\<close> with 11 and 10 where the other branches compare
  \<^verbatim>\<open>votesRow.type\<close>.
\<close>

theorem old_weight_reads_request_type:
  "oldIncrementAmount (Some (ex_vote ''vip'' 12)) 10 = - 1
   \<and> oldIncrementAmount (Some (ex_vote ''vip'' 12)) 0 = - 500
   \<and> oldIncrementAmount (Some (ex_vote ''voter'' 0)) 11 = 1
   \<and> oldIncrementAmount (Some (ex_vote ''voter'' 0)) 1 = - 1"
  by (simp add: oldIncrementAmount_def ex_vote_def)

text \<open>
  Claim C2 on the code. A VIP casts the vote of type 10 twice on \<open>''seg''\<close>,
  starting from an empty ledger. The first vote stores type 12 and adds -500 to
  the counter of incorrect votes. The second vote reads the stored 12 as -1,
  weighs -500 again and adds -500 - (-1) = -499: the counter goes from 0 to -500
  to -999.
\<close>

theorem vip_incorrect_vote_twice:
  "map_option st_incorrectVotes (getSegment (ex_db 1 0 [] []) ''seg'') = Some 0
   \<and> map_option st_incorrectVotes (getSegment
        (snd (voteOnSponsorTime ex_env (ex_request ''vip'' (Some (Num 10)) None) (ex_db 1 0 [] [])))
        ''seg'') = Some (- 500)
   \<and> getVotesRow
        (snd (voteOnSponsorTime ex_env (ex_request ''vip'' (Some (Num 10)) None) (ex_db 1 0 [] [])))
        ''vipseg'' ''seg'' = Some (ex_vote ''vip'' 12)
   \<and> map_option st_incorrectVotes (getSegment
        (snd (voteOnSponsorTime ex_env (ex_request ''vip'' (Some (Num 10)) None)
          (snd (voteOnSponsorTime ex_env (ex_request ''vip'' (Some (Num 10)) None)
             (ex_db 1 0 [] [])))))
        ''seg'') = Some (- 999)"
  by (simp add: ex_defs ex_vote_def vote_defs Let_def)

end
